theory Spec2Isabelle
  imports Complex_Main
begin

section \<open>Values, errors, Series and DataFrame\<close>

text \<open>
  A pandas float64 cell is a finite number, an infinity or NaN; NaN is also pandas' marker
  of a missing value (\<^verbatim>\<open>isna()\<close>). Finite values are modelled as exact reals: rounding,
  overflow and the sign of zero are left out.
\<close>

datatype fl = Fin real | PInf | NInf | NaN

text \<open>
  The exceptions of the Python run time and of the libraries that the code can meet, and
  the two error names of the specification, which no statement of the source raises.
\<close>

datatype error = ValueError | IndexError | KeyError
  | InvalidWindowError | DegenerateSeriesError

definition bind_err :: "error + 'a \<Rightarrow> ('a \<Rightarrow> error + 'b) \<Rightarrow> error + 'b" where
  "bind_err m f = (case m of Inl e \<Rightarrow> Inl e | Inr v \<Rightarrow> f v)"

text \<open>The comparison \<^verbatim>\<open><\<close> of floats: every comparison with NaN is False.\<close>

fun fl_less :: "fl \<Rightarrow> fl \<Rightarrow> bool" where
  "fl_less NaN _ = False"
| "fl_less _ NaN = False"
| "fl_less (Fin a) (Fin b) = (a < b)"
| "fl_less _ NInf = False"
| "fl_less NInf _ = True"
| "fl_less PInf _ = False"
| "fl_less (Fin a) PInf = True"

fun fl_neg :: "fl \<Rightarrow> fl" where
  "fl_neg (Fin a) = Fin (- a)"
| "fl_neg PInf = NInf"
| "fl_neg NInf = PInf"
| "fl_neg NaN = NaN"

fun fl_add :: "fl \<Rightarrow> fl \<Rightarrow> fl" where
  "fl_add NaN _ = NaN"
| "fl_add _ NaN = NaN"
| "fl_add (Fin a) (Fin b) = Fin (a + b)"
| "fl_add PInf NInf = NaN"
| "fl_add NInf PInf = NaN"
| "fl_add PInf _ = PInf"
| "fl_add NInf _ = NInf"
| "fl_add (Fin a) PInf = PInf"
| "fl_add (Fin a) NInf = NInf"

definition fl_sub :: "fl \<Rightarrow> fl \<Rightarrow> fl" where
  "fl_sub a b = fl_add a (fl_neg b)"

text \<open>
  Division as numpy does it on float64 arrays: no exception, \<open>0 / 0\<close> is NaN and
  \<open>x / 0\<close> is an infinity with the sign of \<open>x\<close> (the zero taken as \<open>+0\<close>).
\<close>

fun fl_div :: "fl \<Rightarrow> fl \<Rightarrow> fl" where
  "fl_div NaN _ = NaN"
| "fl_div _ NaN = NaN"
| "fl_div (Fin a) (Fin b) =
     (if b = 0 then (if a = 0 then NaN else if 0 < a then PInf else NInf)
      else Fin (a / b))"
| "fl_div (Fin a) _ = Fin 0"
| "fl_div PInf (Fin b) = (if 0 \<le> b then PInf else NInf)"
| "fl_div NInf (Fin b) = (if 0 \<le> b then NInf else PInf)"
| "fl_div _ _ = NaN"

text \<open>A boolean cell times a float constant: \<^verbatim>\<open>True * c = c\<close>, \<^verbatim>\<open>False * c = 0\<close>.\<close>

definition mul_bool :: "bool \<Rightarrow> real \<Rightarrow> fl" where
  "mul_bool b c = Fin ((if b then 1 else 0) * c)"

text \<open>
  A Series: its name (None when it has none) and its (label, value) pairs in order. A
  DataFrame: its index and its named columns in order, every column as long as the index.
\<close>

record ('i, 'v) series =
  sname :: "string option"
  items :: "('i \<times> 'v) list"

definition index :: "('i, 'v) series \<Rightarrow> 'i list" where
  "index s = map fst (items s)"

definition vals :: "('i, 'v) series \<Rightarrow> 'v list" where
  "vals s = map snd (items s)"

record 'i frame =
  findex :: "'i list"
  fcols :: "(string \<times> fl list) list"

section \<open>backtest\<close>

text \<open>
  \<^verbatim>\<open>df[key] = value\<close> for a Series \<open>value\<close>. A frame whose index is empty first takes
  the index of a non-empty value (\<^verbatim>\<open>_ensure_valid_index\<close>). The value is then aligned
  to the frame's index (\<^verbatim>\<open>_reindex_for_setitem\<close>): taken as it is when the two
  indexes are equal, otherwise looked up label by label, a label the value does not have
  giving NaN; duplicate labels in the value make the reindexing raise ValueError.
\<close>

definition ensure_valid_index :: "'i frame \<Rightarrow> ('i, fl) series \<Rightarrow> 'i frame" where
  "ensure_valid_index df v =
     (if findex df = [] \<and> items v \<noteq> []
      then \<lparr>findex = index v,
            fcols = map (\<lambda>(k, c). (k, replicate (length (items v)) NaN)) (fcols df)\<rparr>
      else df)"

definition reindex_for_setitem :: "('i, fl) series \<Rightarrow> 'i list \<Rightarrow> error + fl list" where
  "reindex_for_setitem v idx =
     (if index v = idx \<or> idx = [] then Inr (vals v)
      else if \<not> distinct (index v) then Inl ValueError
      else Inr (map (\<lambda>i. case map_of (items v) i of None \<Rightarrow> NaN | Some x \<Rightarrow> x) idx))"

fun set_col :: "string \<Rightarrow> fl list \<Rightarrow> (string \<times> fl list) list \<Rightarrow> (string \<times> fl list) list" where
  "set_col k c [] = [(k, c)]"
| "set_col k c (p # ps) = (if fst p = k then (k, c) # ps else p # set_col k c ps)"

definition setitem :: "'i frame \<Rightarrow> string \<Rightarrow> ('i, fl) series \<Rightarrow> error + 'i frame" where
  "setitem df key v =
     (let df1 = ensure_valid_index df v in
      bind_err (reindex_for_setitem v (findex df1))
        (\<lambda>c. Inr (df1\<lparr>fcols := set_col key c (fcols df1)\<rparr>)))"

text \<open>\<^verbatim>\<open>df[key]\<close>: the column as a Series over the frame's index, KeyError when absent.\<close>

definition getitem :: "'i frame \<Rightarrow> string \<Rightarrow> error + ('i, fl) series" where
  "getitem df key =
     (case map_of (fcols df) key of
        None \<Rightarrow> Inl KeyError
      | Some c \<Rightarrow> Inr \<lparr>sname = Some key, items = zip (findex df) c\<rparr>)"

text \<open>
  \<^verbatim>\<open>z_score < -entry_threshold\<close> and \<^verbatim>\<open>z_score > entry_threshold\<close>, cell by cell, each
  times its constant.
\<close>

definition long_cell :: "real \<Rightarrow> fl \<Rightarrow> fl" where
  "long_cell entry_threshold z = mul_bool (fl_less z (Fin (- entry_threshold))) 1"

definition short_cell :: "real \<Rightarrow> fl \<Rightarrow> fl" where
  "short_cell entry_threshold z = mul_bool (fl_less (Fin entry_threshold) z) (- 1)"

definition map_series :: "('v \<Rightarrow> 'w) \<Rightarrow> ('i, 'v) series \<Rightarrow> ('i, 'w) series" where
  "map_series f s = \<lparr>sname = sname s, items = map (\<lambda>(t, x). (t, f x)) (items s)\<rparr>"

text \<open>
  The name of the result of a binary operation on two Series: their common name, or None.
\<close>

definition result_name :: "('i, 'v) series \<Rightarrow> ('i, 'w) series \<Rightarrow> string option" where
  "result_name a b = (if sname a = sname b then sname a else None)"

text \<open>
  The sum of two columns of one frame: both carry the frame's index, so pandas adds
  them cell by cell.
\<close>

definition add_cols :: "('i, fl) series \<Rightarrow> ('i, fl) series \<Rightarrow> ('i, fl) series" where
  "add_cols a b =
     \<lparr>sname = result_name a b, items = zip (index a) (map2 fl_add (vals a) (vals b))\<rparr>"

definition backtest ::
  "('i, 'a) series \<Rightarrow> ('i, fl) series \<Rightarrow> real \<Rightarrow> real \<Rightarrow> error + 'i frame" where
  "backtest spread z_score entry_threshold exit_threshold =
     (let positions = \<lparr>findex = index spread, fcols = []\<rparr> in
      bind_err (setitem positions ''Long'' (map_series (long_cell entry_threshold) z_score))
        (\<lambda>positions.
      bind_err (setitem positions ''Short'' (map_series (short_cell entry_threshold) z_score))
        (\<lambda>positions.
      bind_err (getitem positions ''Long'') (\<lambda>long.
      bind_err (getitem positions ''Short'') (\<lambda>short.
      setitem positions ''Total'' (add_cols long short))))))"

text \<open>
  The state a row stands for, as \<^verbatim>\<open>plot_results\<close> reads the \<^verbatim>\<open>Total\<close> column:
  \<open>1\<close> is a long spread, \<open>-1\<close> a short spread; \<open>0\<close> is no position.
\<close>

datatype position_state = Long | Short | Flat

definition state_of :: "fl \<Rightarrow> position_state option" where
  "state_of v =
     (if v = Fin 1 then Some Long else if v = Fin (- 1) then Some Short
      else if v = Fin 0 then Some Flat else None)"

text \<open>The cells of a column of the returned frame; none when there is no such column.\<close>

definition column :: "string \<Rightarrow> error + 'i frame \<Rightarrow> fl list" where
  "column key r =
     (case r of
        Inl e \<Rightarrow> []
      | Inr df \<Rightarrow> (case map_of (fcols df) key of None \<Rightarrow> [] | Some c \<Rightarrow> c))"

text \<open>
  The cell of the \<^verbatim>\<open>Total\<close> column over a z-score \<open>z\<close>: the sum of its \<^verbatim>\<open>Long\<close> and
  \<^verbatim>\<open>Short\<close> cells.
\<close>

definition total_cell :: "real \<Rightarrow> fl \<Rightarrow> fl" where
  "total_cell e z = fl_add (long_cell e z) (short_cell e z)"

text \<open>
  The classification in the specification's words: Long when the z-score is below
  \<open>- entryThreshold\<close>, Short when it is above \<open>entryThreshold\<close>, Flat otherwise (an
  undefined z-score compares False both times).
\<close>

definition spec_state :: "real \<Rightarrow> fl \<Rightarrow> position_state" where
  "spec_state entryThreshold z =
     (if fl_less z (Fin (- entryThreshold)) then Long
      else if fl_less (Fin entryThreshold) z then Short else Flat)"

text \<open>The number of rows whose state is Long or Short.\<close>

definition active_count :: "error + 'i frame \<Rightarrow> nat" where
  "active_count r =
     length (filter (\<lambda>v. state_of v = Some Long \<or> state_of v = Some Short)
       (column ''Total'' r))"

text \<open>Scenario 3 of the specification, over the labels \<open>0..4\<close>, and a spread on the same labels.\<close>

definition z3 :: "(nat, fl) series" where
  "z3 = \<lparr>sname = Some ''z'',
          items = [(0, Fin (- 3)), (1, Fin (- 1)), (2, Fin 0), (3, Fin 1), (4, Fin 3)]\<rparr>"

definition sp3 :: "(nat, real) series" where
  "sp3 = \<lparr>sname = Some ''KO'', items = [(0, 10), (1, 12), (2, 13), (3, 14), (4, 16)]\<rparr>"

definition sp3' :: "(nat, bool) series" where
  "sp3' = \<lparr>sname = Some ''PEP'', items = [(0, True), (1, False), (2, False), (3, True), (4, True)]\<rparr>"

section \<open>calculate\_zscore\<close>

text \<open>
  \<^verbatim>\<open>series.rolling(window=window)\<close> with an integer window: pandas rejects a negative
  window with ValueError and takes every other one, also \<open>0\<close> and one longer than the
  series. \<^verbatim>\<open>min_periods\<close> is not given, so it is the window size.
\<close>

definition rolling :: "('i, real) series \<Rightarrow> int \<Rightarrow> error + real list \<times> nat" where
  "rolling series window =
     (if window < 0 then Inl ValueError else Inr (vals series, nat window))"

text \<open>The window of row \<open>i\<close>: the rows \<open>i + 1 - w\<close> (not below 0) to \<open>i\<close>.\<close>

definition window_at :: "real list \<Rightarrow> nat \<Rightarrow> nat \<Rightarrow> real list" where
  "window_at xs w i = drop (Suc i - w) (take (Suc i) xs)"

text \<open>
  The aggregates \<^verbatim>\<open>.mean()\<close> and \<^verbatim>\<open>.std()\<close> are computed by pandas' float64 kernels,
  which run along the whole column. A kernel is a parameter: \<open>k xs w i\<close> is the float that
  pandas computes at row \<open>i\<close> of the column \<open>xs\<close> for the window \<open>w\<close>, read only at rows
  whose window holds enough observations.
\<close>

type_synonym kernel = "real list \<Rightarrow> nat \<Rightarrow> nat \<Rightarrow> fl"

text \<open>
  One cell of \<^verbatim>\<open>.mean()\<close> and of \<^verbatim>\<open>.std()\<close>: NaN when the window holds fewer than
  \<^verbatim>\<open>min_periods\<close> observations, for the mean when it holds none, for the deviation when
  it holds no more than \<^verbatim>\<open>ddof = 1\<close>; the kernel's value otherwise.
\<close>

definition roll_mean :: "kernel \<Rightarrow> real list \<Rightarrow> nat \<Rightarrow> nat \<Rightarrow> fl" where
  "roll_mean kmean xs w i =
     (let nobs = length (window_at xs w i)
      in if w \<le> nobs \<and> 0 < nobs then kmean xs w i else NaN)"

definition roll_std :: "kernel \<Rightarrow> real list \<Rightarrow> nat \<Rightarrow> nat \<Rightarrow> fl" where
  "roll_std kstd xs w i =
     (let nobs = length (window_at xs w i)
      in if max w 1 \<le> nobs \<and> 1 < nobs then kstd xs w i else NaN)"

definition rolling_mean :: "kernel \<Rightarrow> real list \<times> nat \<Rightarrow> fl list" where
  "rolling_mean kmean r =
     (case r of (xs, w) \<Rightarrow> map (\<lambda>i. roll_mean kmean xs w i) [0..<length xs])"

definition rolling_std :: "kernel \<Rightarrow> real list \<times> nat \<Rightarrow> fl list" where
  "rolling_std kstd r =
     (case r of (xs, w) \<Rightarrow> map (\<lambda>i. roll_std kstd xs w i) [0..<length xs])"

text \<open>
  \<^verbatim>\<open>(series - r_mean) / r_std\<close>: the three Series carry the index of \<open>series\<close>, so the
  arithmetic is cell by cell. The division has no guard.
\<close>

definition calculate_zscore ::
  "kernel \<Rightarrow> kernel \<Rightarrow> ('i, real) series \<Rightarrow> int \<Rightarrow> error + ('i, fl) series" where
  "calculate_zscore kmean kstd series window =
     bind_err (rolling series window) (\<lambda>r1.
       let r_mean = rolling_mean kmean r1 in
     bind_err (rolling series window) (\<lambda>r2.
       let r_std = rolling_std kstd r2;
           z_score = map2 fl_div (map2 fl_sub (map Fin (vals series)) r_mean) r_std
       in Inr \<lparr>sname = sname series, items = zip (index series) z_score\<rparr>))"

text \<open>Row \<open>i\<close> of \<^verbatim>\<open>z_score\<close> for the values \<open>xs\<close> and the window \<open>w\<close>.\<close>

definition zcell :: "kernel \<Rightarrow> kernel \<Rightarrow> real list \<Rightarrow> nat \<Rightarrow> nat \<Rightarrow> fl" where
  "zcell kmean kstd xs w i = fl_div (fl_sub (Fin (xs ! i)) (roll_mean kmean xs w i))
                                   (roll_std kstd xs w i)"

text \<open>
  Kernels to run the model on. The first two are the mean and the sample standard
  deviation (\<^verbatim>\<open>ddof=1\<close>) of the window in exact arithmetic. The third is the sample
  standard deviation with the underflow of float64: a squared deviation below
  \<open>1 / 2 ^ 1075\<close>, half the least positive float, is rounded to zero.
\<close>

definition mean :: "real list \<Rightarrow> real" where
  "mean xs = sum_list xs / real (length xs)"

definition mean_exact :: kernel where
  "mean_exact xs w i = Fin (mean (window_at xs w i))"

definition std_exact :: kernel where
  "std_exact xs w i =
     (let win = window_at xs w i
      in Fin (sqrt ((\<Sum>x\<leftarrow>win. (x - mean win)\<^sup>2) / (real (length win) - 1))))"

definition flush :: "real \<Rightarrow> real" where
  "flush x = (if \<bar>x\<bar> < 1 / 2 ^ 1075 then 0 else x)"

definition std_underflow :: kernel where
  "std_underflow xs w i =
     (let win = window_at xs w i
      in Fin (sqrt ((\<Sum>x\<leftarrow>win. flush ((x - mean win)\<^sup>2)) / (real (length win) - 1))))"

text \<open>
  Spreads to run the model on: one of five rows, Scenario 4's spread of one row, a
  constant one of three rows, and one of three rows of the size of \<open>1 / 2 ^ 600\<close>.
\<close>

definition sp5 :: "(nat, real) series" where
  "sp5 = \<lparr>sname = Some ''spread'', items = [(0, 5), (1, 5), (2, 5), (3, 6), (4, 7)]\<rparr>"

definition sp1 :: "(nat, real) series" where
  "sp1 = \<lparr>sname = Some ''spread'', items = [(0, 5)]\<rparr>"

definition flat3 :: "(nat, real) series" where
  "flat3 = \<lparr>sname = Some ''spread'', items = [(0, 5), (1, 5), (2, 5)]\<rparr>"

definition tiny :: real where
  "tiny = 1 / 2 ^ 600"

definition tiny3 :: "(nat, real) series" where
  "tiny3 = \<lparr>sname = Some ''spread'', items = [(0, tiny), (1, 2 * tiny), (2, 3 * tiny)]\<rparr>"

section \<open>check\_cointegration\<close>

text \<open>
  The exog frame that \<^verbatim>\<open>sm.add_constant\<close> makes of a Series: one column, or two. Of a
  pandas Series statsmodels (\<^verbatim>\<open>add_trend\<close> with \<^verbatim>\<open>trend='c'\<close>, \<^verbatim>\<open>prepend=True\<close>,
  \<^verbatim>\<open>has_constant='skip'\<close>) first makes a one-column frame and then puts a column of ones
  named \<^verbatim>\<open>const\<close> before it, unless the column is already a non-zero constant
  (\<^verbatim>\<open>np.ptp(s) == 0.0 and np.any(s != 0.0)\<close>; an exception in this test counts as False):
  then the one-column frame is returned as it is.
\<close>

datatype 'i exog =
    Exog1 "'i list" "string option \<times> real list"
  | Exog2 "'i list" "string option \<times> real list" "string option \<times> real list"

fun xindex :: "'i exog \<Rightarrow> 'i list" where
  "xindex (Exog1 idx c) = idx"
| "xindex (Exog2 idx c0 c1) = idx"

fun columns :: "'i exog \<Rightarrow> (string option \<times> real list) list" where
  "columns (Exog1 idx c) = [c]"
| "columns (Exog2 idx c0 c1) = [c0, c1]"

definition ptp :: "real list \<Rightarrow> real" where
  "ptp xs = Max (set xs) - Min (set xs)"

definition safe_is_const :: "real list \<Rightarrow> bool" where
  "safe_is_const s = (s \<noteq> [] \<and> ptp s = 0 \<and> (\<exists>x\<in>set s. x \<noteq> 0))"

definition add_constant :: "('i, real) series \<Rightarrow> 'i exog" where
  "add_constant s =
     (if safe_is_const (vals s) then Exog1 (index s) (sname s, vals s)
      else Exog2 (index s) (Some ''const'', replicate (length (vals s)) 1) (sname s, vals s))"

text \<open>
  \<^verbatim>\<open>sm.OLS(endog, exog).fit()\<close>: the coefficients \<open>pinv(exog) endog\<close>, one per column.
  statsmodels takes the pseudo-inverse from the singular value decomposition of the exog
  and drops every singular value that is not above \<^verbatim>\<open>rcond = 1e-15\<close> times the largest
  one (\<^verbatim>\<open>pinv_extended\<close>). The singular values of a two-column exog are the square
  roots of the eigenvalues of its Gram matrix \<open>[[a, b], [b, d]]\<close>. With both kept the
  coefficients solve the normal equations; with the smaller one dropped they are those of
  the rank-one part of the exog, the projection of \<open>(u, v)\<close> on the eigenvector of the
  larger eigenvalue over that eigenvalue; with none kept they are zero. One column has one
  singular value, kept unless it is zero. The arithmetic is exact. The constructor raises
  ValueError for an empty exog and for an endog whose index is not the exog's.
\<close>

definition dot :: "real list \<Rightarrow> real list \<Rightarrow> real" where
  "dot xs ys = (\<Sum>(x, y)\<leftarrow>zip xs ys. x * y)"

definition rcond :: real where
  "rcond = 1 / 10 ^ 15"

definition eig_max :: "real \<Rightarrow> real \<Rightarrow> real \<Rightarrow> real" where
  "eig_max a b d = (a + d + sqrt ((a - d)\<^sup>2 + 4 * b\<^sup>2)) / 2"

definition eig_min :: "real \<Rightarrow> real \<Rightarrow> real \<Rightarrow> real" where
  "eig_min a b d = (a + d - sqrt ((a - d)\<^sup>2 + 4 * b\<^sup>2)) / 2"

fun pinv_fit :: "real list \<Rightarrow> 'i exog \<Rightarrow> real list" where
  "pinv_fit y (Exog1 idx (n, c)) = [if dot c c = 0 then 0 else dot c y / dot c c]"
| "pinv_fit y (Exog2 idx (n0, c0) (n1, c1)) =
     (let a = dot c0 c0; b = dot c0 c1; d = dot c1 c1; u = dot c0 y; v = dot c1 y;
          lmax = eig_max a b d; lmin = eig_min a b d
      in if lmax = 0 then [0, 0]
         else if sqrt lmin \<le> rcond * sqrt lmax
         then [((a - lmin) * u + b * v) / ((lmax - lmin) * lmax),
               (b * u + (d - lmin) * v) / ((lmax - lmin) * lmax)]
         else [(d * u - b * v) / (a * d - b * b), (a * v - b * u) / (a * d - b * b)])"

definition OLS_fit :: "('i, real) series \<Rightarrow> 'i exog \<Rightarrow> error + real list" where
  "OLS_fit endog exog =
     (if xindex exog = [] then Inl ValueError
      else if index endog \<noteq> xindex exog then Inl ValueError
      else Inr (pinv_fit (vals endog) exog))"

text \<open>\<^verbatim>\<open>.iloc[k]\<close> of a Series and \<^verbatim>\<open>.iloc[:, k]\<close> of a frame raise IndexError out of range.\<close>

definition iloc :: "'a list \<Rightarrow> nat \<Rightarrow> error + 'a" where
  "iloc xs k = (if k < length xs then Inr (xs ! k) else Inl IndexError)"

text \<open>
  \<^verbatim>\<open>series1['Adj Close'] if 'Adj Close' in series1 else series1.iloc[:, 1]\<close>: the test
  reads the frame's column names.
\<close>

definition price_column :: "'i exog \<Rightarrow> error + string option \<times> real list" where
  "price_column x =
     (if Some ''Adj Close'' \<in> set (map fst (columns x))
      then (case map_of (columns x) (Some ''Adj Close'') of
              None \<Rightarrow> Inl KeyError | Some c \<Rightarrow> Inr (Some ''Adj Close'', c))
      else iloc (columns x) 1)"

text \<open>
  \<^verbatim>\<open>series2 - hedge_ratio * column\<close>: the column carries the exog's index, which is
  that of \<open>series2\<close> once OLS has taken the two, so the arithmetic is cell by cell.
\<close>

definition spread_values :: "real \<Rightarrow> real list \<Rightarrow> real list \<Rightarrow> real list" where
  "spread_values hedge_ratio a b = map2 (\<lambda>y x. y - hedge_ratio * x) b a"

text \<open>
  The first part of check\_cointegration, the hedge ratio and the spread:
  \<^verbatim>\<open>series1 = sm.add_constant(series1)\<close>, the fit,
  \<^verbatim>\<open>hedge_ratio = model.params.iloc[1]\<close> and the spread.
\<close>

definition fit_spread ::
  "('i, real) series \<Rightarrow> ('i, real) series \<Rightarrow> error + real \<times> ('i, real) series" where
  "fit_spread series1 series2 =
     (let series1' = add_constant series1 in
      bind_err (OLS_fit series2 series1') (\<lambda>params.
      bind_err (iloc params 1) (\<lambda>hedge_ratio.
      bind_err (price_column series1') (\<lambda>col.
      Inr (hedge_ratio,
           \<lparr>sname = (if sname series2 = fst col then sname series2 else None),
            items = zip (index series2)
                      (spread_values hedge_ratio (snd col) (vals series2))\<rparr>)))))"

text \<open>
  The second part, the test of the spread. The Augmented Dickey-Fuller test of
  statsmodels is a parameter: \<open>adfuller xs\<close> is the p-value (\<^verbatim>\<open>adf_result[1]\<close>) of the
  test on \<open>xs\<close>, or None where the library raises (ValueError, for a sample that is too
  short or constant).
\<close>

definition check_cointegration ::
  "(real list \<Rightarrow> real option) \<Rightarrow> ('i, real) series \<Rightarrow> ('i, real) series
     \<Rightarrow> error + real \<times> real \<times> ('i, real) series" where
  "check_cointegration adfuller series1 series2 =
     bind_err (fit_spread series1 series2) (\<lambda>(hedge_ratio, spread).
       case adfuller (vals spread) of
         None \<Rightarrow> Inl ValueError
       | Some p_value \<Rightarrow> Inr (p_value, hedge_ratio, spread))"



text \<open>A series of zero variance: all its values are equal.\<close>

definition constant_series :: "real list \<Rightarrow> bool" where
  "constant_series xs = (\<forall>x\<in>set xs. \<forall>y\<in>set xs. x = y)"




text \<open>
  Data to run the model on: two price series of three rows, the first constant; two of
  twenty rows; and the first of these moved up by \<open>10 ^ 8\<close>.
\<close>

definition koB :: "(nat, real) series" where
  "koB = \<lparr>sname = Some ''KO'', items = [(0, 2), (1, 3), (2, 7)]\<rparr>"

definition constA :: "(nat, real) series" where
  "constA = \<lparr>sname = Some ''PEP'', items = [(0, 3), (1, 3), (2, 3)]\<rparr>"




section \<open>Properties of backtest\<close>

lemma index_map_series: "index (map_series f s) = index s"
  by (simp add: index_def map_series_def case_prod_unfold comp_def)

lemma vals_map_series: "vals (map_series f s) = map f (vals s)"
  by (simp add: vals_def map_series_def case_prod_unfold comp_def)

lemma length_vals_index: "length (vals s) = length (index s)"
  by (simp add: vals_def index_def)

text \<open>A value on the frame's own index is stored as it is.\<close>

lemma setitem_aligned:
  assumes "index v = findex df"
  shows "setitem df key v = Inr (df\<lparr>fcols := set_col key (vals v) (fcols df)\<rparr>)"
proof -
  have "ensure_valid_index df v = df"
    using assms by (auto simp: ensure_valid_index_def index_def)
  then show ?thesis
    using assms by (simp add: setitem_def reindex_for_setitem_def bind_err_def)
qed

lemma map2_same: "map2 f (map g xs) (map h xs) = map (\<lambda>x. f (g x) (h x)) xs"
  by (induction xs) auto

text \<open>The frame that backtest returns for a z-score on the spread's index.\<close>

lemma backtest_aligned:
  assumes "index z = index sp"
  shows "backtest sp z e x = Inr \<lparr>findex = index sp,
     fcols = [(''Long'', map (long_cell e) (vals z)), (''Short'', map (short_cell e) (vals z)),
              (''Total'', map (total_cell e) (vals z))]\<rparr>"
proof -
  have len: "length (index sp) = length (vals z)"
    using assms by (simp add: length_vals_index)
  have m: "map2 fl_add (map (long_cell e) (vals z)) (map (short_cell e) (vals z))
             = map (total_cell e) (vals z)"
    by (simp add: map2_same total_cell_def)
  show ?thesis
    unfolding backtest_def Let_def
    by (simp add: setitem_aligned index_map_series assms vals_map_series bind_err_def
        getitem_def add_cols_def index_def[of "\<lparr>sname = _, items = _\<rparr>"]
        vals_def[of "\<lparr>sname = _, items = _\<rparr>"] len m)
qed

text \<open>
  A z-score on another index is reindexed: a label of the spread that the z-score does not
  have gets NaN in every column. The properties below are about a z-score on the spread's
  index, as calculate\_zscore returns it.
\<close>

lemma backtest_other_index:
  "backtest sp3 \<lparr>sname = Some ''z'', items = [(0::nat, Fin (- 3))]\<rparr> 2 (1/2)
   = Inr \<lparr>findex = [0, 1, 2, 3, 4],
          fcols = [(''Long'', [Fin 1, NaN, NaN, NaN, NaN]),
                   (''Short'', [Fin 0, NaN, NaN, NaN, NaN]),
                   (''Total'', [Fin 1, NaN, NaN, NaN, NaN])]\<rparr>"
  by (simp add: backtest_def setitem_def ensure_valid_index_def reindex_for_setitem_def
      bind_err_def getitem_def add_cols_def map_series_def index_def vals_def sp3_def
      long_cell_def short_cell_def mul_bool_def result_name_def)

lemma column_backtest_Total:
  "index z = index sp \<Longrightarrow> column ''Total'' (backtest sp z e x) = map (total_cell e) (vals z)"
  by (simp add: backtest_aligned column_def)

lemma state_of_total_cell:
  "0 \<le> e \<Longrightarrow> state_of (total_cell e v) = Some (spec_state e v)"
  by (cases v)
    (auto simp: total_cell_def long_cell_def short_cell_def mul_bool_def state_of_def
      spec_state_def)

lemma total_cell_cases: "total_cell e v \<in> {Fin (- 1), Fin 0, Fin 1}"
  by (cases v) (auto simp: total_cell_def long_cell_def short_cell_def mul_bool_def)

lemma length_filter_mono:
  "(\<And>x. x \<in> set xs \<Longrightarrow> P x \<Longrightarrow> Q x) \<Longrightarrow> length (filter P xs) \<le> length (filter Q xs)"
  by (induction xs) auto

lemma spec_state_mono:
  assumes "0 \<le> e1" "e1 \<le> e2" "spec_state e2 v \<noteq> Flat"
  shows "spec_state e1 v \<noteq> Flat"
  using assms by (cases v) (auto simp: spec_state_def split: if_splits)

lemma index_z3_sp3: "index z3 = index sp3"
  by (simp add: index_def z3_def sp3_def)

text \<open>
  C1. With \<open>entry_threshold > exit_threshold \<ge> 0\<close> and the z-score on the spread's index,
  the state of every row is the memoryless classification of that row's z-score alone: Long
  exactly below \<open>- entry_threshold\<close>, Short exactly above \<open>entry_threshold\<close>, Flat otherwise,
  an undefined (NaN) z-score included; and the exit threshold does not change the result.
\<close>

theorem backtest_memoryless:
  assumes "index z = index sp" and "exit_threshold < entry_threshold" and "0 \<le> exit_threshold"
  shows "map state_of (column ''Total'' (backtest sp z entry_threshold exit_threshold))
           = map (\<lambda>v. Some (spec_state entry_threshold v)) (vals z)
       \<and> spec_state entry_threshold NaN = Flat
       \<and> (\<forall>x'. backtest sp z entry_threshold x' = backtest sp z entry_threshold exit_threshold)"
proof -
  have "0 \<le> entry_threshold" using assms by simp
  then have "map state_of (column ''Total'' (backtest sp z entry_threshold exit_threshold))
           = map (\<lambda>v. Some (spec_state entry_threshold v)) (vals z)"
    using assms(1) by (simp add: column_backtest_Total state_of_total_cell)
  moreover have "\<forall>x'. backtest sp z entry_threshold x'
                    = backtest sp z entry_threshold exit_threshold"
    by (simp add: backtest_def)
  ultimately show ?thesis by (simp add: spec_state_def)
qed

text \<open>Scenario 3: the z-scores \<open>[-3, -1, 0, 1, 3]\<close> with thresholds \<open>2.0\<close> and \<open>0.5\<close>.\<close>

theorem backtest_memoryless_witness:
  "index z3 = index sp3 \<and> (1/2 :: real) < 2 \<and> (0::real) \<le> 1/2
   \<and> map state_of (column ''Total'' (backtest sp3 z3 2 (1/2)))
       = [Some Long, Some Flat, Some Flat, Some Flat, Some Short]"
proof -
  have "map state_of (column ''Total'' (backtest sp3 z3 2 (1/2)))
        = map (\<lambda>v. Some (spec_state 2 v)) (vals z3)"
    using backtest_memoryless [OF index_z3_sp3, of "1/2" 2] by simp
  also have "\<dots> = [Some Long, Some Flat, Some Flat, Some Flat, Some Short]"
    by (simp add: vals_def z3_def spec_state_def)
  finally show ?thesis using index_z3_sp3 by simp
qed

text \<open>
  C6. For a z-score on the spread's index and entry thresholds \<open>0 \<le> e1 \<le> e2\<close>, the number
  of rows classified Long or Short with \<open>e2\<close> is at most the number with \<open>e1\<close>.
\<close>

theorem backtest_threshold_monotone:
  assumes "index z = index sp" and "0 \<le> e1" and "e1 \<le> e2"
  shows "active_count (backtest sp z e2 x2) \<le> active_count (backtest sp z e1 x1)"
proof -
  have e2: "0 \<le> e2" using assms by simp
  have "length (filter (\<lambda>v. spec_state e2 v = Long \<or> spec_state e2 v = Short) (vals z))
        \<le> length (filter (\<lambda>v. spec_state e1 v = Long \<or> spec_state e1 v = Short) (vals z))"
    using spec_state_mono[OF assms(2,3)]
    by (intro length_filter_mono) (metis position_state.exhaust)
  then show ?thesis
    using assms e2
    by (simp add: active_count_def column_backtest_Total filter_map comp_def state_of_total_cell)
qed

theorem backtest_threshold_monotone_witness:
  "index z3 = index sp3 \<and> (0::real) \<le> 2 \<and> (2::real) \<le> 3
   \<and> active_count (backtest sp3 z3 3 (1/2)) \<le> active_count (backtest sp3 z3 2 (1/2))
   \<and> active_count (backtest sp3 z3 2 (1/2)) = 2"
proof -
  have "active_count (backtest sp3 z3 2 (1/2)) = 2"
    unfolding active_count_def column_backtest_Total [OF index_z3_sp3]
    by (simp add: vals_def z3_def total_cell_def long_cell_def short_cell_def mul_bool_def
        state_of_def)
  then show ?thesis
    using backtest_threshold_monotone [OF index_z3_sp3, of 2 3 "1/2" "1/2"] index_z3_sp3
    by simp
qed

text \<open>
  Below zero the two entry conditions overlap and cancel in \<^verbatim>\<open>Total\<close>, so the count is
  not monotone there: on Scenario 3's z-scores it is 2 for the threshold \<open>-2\<close> and 4 for
  \<open>-1\<close>.
\<close>

lemma active_count_negative_thresholds:
  "active_count (backtest sp3 z3 (- 2) (1/2)) = 2 \<and> active_count (backtest sp3 z3 (- 1) (1/2)) = 4"
  unfolding active_count_def column_backtest_Total [OF index_z3_sp3]
  by (simp add: vals_def z3_def total_cell_def long_cell_def short_cell_def mul_bool_def
      state_of_def)

text \<open>
  C9. For a z-score on the spread's index and any two real thresholds, backtest returns a
  frame on that index with the columns \<^verbatim>\<open>Long\<close>, \<^verbatim>\<open>Short\<close> and \<^verbatim>\<open>Total\<close>; in every row
  \<^verbatim>\<open>Long\<close> is 0 or 1, \<^verbatim>\<open>Short\<close> is -1 or 0, \<^verbatim>\<open>Total\<close> is their sum and is -1, 0 or 1,
  so the row's state is Long, Short or Flat.
\<close>

theorem backtest_rows:
  assumes "index z = index sp"
  shows "\<exists>l s t. backtest sp z e x
            = Inr \<lparr>findex = index sp, fcols = [(''Long'', l), (''Short'', s), (''Total'', t)]\<rparr>
         \<and> length l = length (index sp) \<and> length s = length (index sp)
         \<and> length t = length (index sp)
         \<and> (\<forall>i < length (index sp).
               l ! i \<in> {Fin 0, Fin 1} \<and> s ! i \<in> {Fin (- 1), Fin 0}
             \<and> t ! i = fl_add (l ! i) (s ! i) \<and> t ! i \<in> {Fin (- 1), Fin 0, Fin 1}
             \<and> state_of (t ! i) \<in> {Some Long, Some Short, Some Flat})"
proof -
  have len: "length (vals z) = length (index sp)"
    using assms by (simp add: length_vals_index)
  have "\<forall>v. long_cell e v \<in> {Fin 0, Fin 1} \<and> short_cell e v \<in> {Fin (- 1), Fin 0}
        \<and> total_cell e v \<in> {Fin (- 1), Fin 0, Fin 1}
        \<and> state_of (total_cell e v) \<in> {Some Long, Some Short, Some Flat}"
    using total_cell_cases[of e]
    by (auto simp: long_cell_def short_cell_def mul_bool_def state_of_def)
  then show ?thesis
    using len by (simp add: backtest_aligned[OF assms] total_cell_def)
qed

text \<open>With the thresholds \<open>-1\<close> and \<open>5\<close>, outside the precondition, on Scenario 3's z-scores.\<close>

theorem backtest_rows_witness:
  "index z3 = index sp3
   \<and> (\<exists>l s t. backtest sp3 z3 (- 1) 5
            = Inr \<lparr>findex = index sp3, fcols = [(''Long'', l), (''Short'', s), (''Total'', t)]\<rparr>
         \<and> length t = length (index sp3)
         \<and> l ! 2 \<in> {Fin 0, Fin 1} \<and> s ! 2 \<in> {Fin (- 1), Fin 0}
         \<and> t ! 2 = fl_add (l ! 2) (s ! 2) \<and> t ! 2 \<in> {Fin (- 1), Fin 0, Fin 1}
         \<and> state_of (t ! 2) \<in> {Some Long, Some Short, Some Flat})"
proof -
  have n: "2 < length (index sp3)" by (simp add: index_def sp3_def)
  from backtest_rows [OF index_z3_sp3, of "- 1" 5] obtain l s t where
    r: "backtest sp3 z3 (- 1) 5
          = Inr \<lparr>findex = index sp3, fcols = [(''Long'', l), (''Short'', s), (''Total'', t)]\<rparr>"
       "length t = length (index sp3)"
       "\<forall>i < length (index sp3).
               l ! i \<in> {Fin 0, Fin 1} \<and> s ! i \<in> {Fin (- 1), Fin 0}
             \<and> t ! i = fl_add (l ! i) (s ! i) \<and> t ! i \<in> {Fin (- 1), Fin 0, Fin 1}
             \<and> state_of (t ! i) \<in> {Some Long, Some Short, Some Flat}"
    by blast
  from r(3) n have "l ! 2 \<in> {Fin 0, Fin 1} \<and> s ! 2 \<in> {Fin (- 1), Fin 0}
             \<and> t ! 2 = fl_add (l ! 2) (s ! 2) \<and> t ! 2 \<in> {Fin (- 1), Fin 0, Fin 1}
             \<and> state_of (t ! 2) \<in> {Some Long, Some Short, Some Flat}"
    by blast
  with r(1,2) index_z3_sp3 show ?thesis by blast
qed

text \<open>
  C10. backtest reads its spread argument only for the index: two spreads with the same
  index, whatever their values (and their value type), give the same frame for the same
  z-score and thresholds.
\<close>

theorem backtest_ignores_spread_values:
  fixes sp1 :: "('i, 'a) series" and sp2 :: "('i, 'b) series"
  assumes "index sp1 = index sp2"
  shows "backtest sp1 z e x = backtest sp2 z e x"
  using assms by (simp add: backtest_def)

theorem backtest_ignores_spread_values_witness:
  "index sp3 = index sp3' \<and> backtest sp3 z3 2 (1/2) = backtest sp3' z3 2 (1/2)"
proof -
  have a: "index sp3 = index sp3'" by (simp add: index_def sp3_def sp3'_def)
  from backtest_ignores_spread_values [OF a] a show ?thesis by simp
qed

section \<open>Properties of calculate\_zscore\<close>

lemma length_window_at:
  "i < length xs \<Longrightarrow> length (window_at xs w i) = min w (Suc i)"
  by (auto simp: window_at_def)

lemma last_window_at:
  assumes "i < length xs" "0 < w"
  shows "xs ! i \<in> set (window_at xs w i)"
proof -
  define k where "k = Suc i - w"
  have k: "k \<le> i" using assms by (simp add: k_def)
  have "drop k (take (Suc i) xs) ! (i - k) = xs ! i"
    using assms k by simp
  moreover have "i - k < length (drop k (take (Suc i) xs))"
    using assms k by simp
  ultimately show ?thesis
    unfolding window_at_def k_def [symmetric] by (metis nth_mem)
qed

lemma zscore_cells:
  assumes "0 \<le> w"
  shows "calculate_zscore kmean kstd s w = Inr \<lparr>sname = sname s, items = zip (index s)
     (map (zcell kmean kstd (vals s) (nat w)) [0..<length (vals s)])\<rparr>"
proof -
  have "map2 fl_div (map2 fl_sub (map Fin xs) (map f [0..<length xs])) (map g [0..<length xs])
        = map (\<lambda>i. fl_div (fl_sub (Fin (xs ! i)) (f i)) (g i)) [0..<length xs]" for xs :: "real list" and f g
    by (rule nth_equalityI) auto
  then show ?thesis
    using assms
    by (simp add: calculate_zscore_def rolling_def bind_err_def rolling_mean_def rolling_std_def
        zcell_def[abs_def])
qed

lemma zcell_early: "i < length xs \<Longrightarrow> Suc i < w \<Longrightarrow> zcell kmean kstd xs w i = NaN"
  by (simp add: zcell_def roll_mean_def roll_std_def length_window_at fl_sub_def)

lemma zcell_small: "i < length xs \<Longrightarrow> w < 2 \<Longrightarrow> zcell kmean kstd xs w i = NaN"
  by (cases "fl_sub (Fin (xs ! i)) (roll_mean kmean xs w i)")
     (auto simp add: zcell_def roll_std_def length_window_at)

lemma zcell_full:
  assumes "i < length xs" "2 \<le> w" "w \<le> Suc i"
  shows "zcell kmean kstd xs w i = fl_div (fl_sub (Fin (xs ! i)) (kmean xs w i)) (kstd xs w i)"
  using assms by (simp add: zcell_def roll_mean_def roll_std_def length_window_at)

lemma fl_div_zero_not_finite: "fl_div (fl_sub (Fin x) m) (Fin 0) \<noteq> Fin v"
  by (cases m) (auto simp: fl_sub_def)

lemma fl_div_zero_cases:
  "fl_div (fl_sub (Fin x) (Fin m)) (Fin 0) = (if x = m then NaN else if m < x then PInf else NInf)"
  by (simp add: fl_sub_def)

lemma fl_div_finite:
  "sd \<noteq> 0 \<Longrightarrow> fl_div (fl_sub (Fin x) (Fin m)) (Fin sd) = Fin ((x - m) / sd)"
  by (simp add: fl_sub_def)

lemma index_zip: "length zs = length (items s) \<Longrightarrow> index \<lparr>sname = n, items = zip (index s) zs\<rparr> = index s"
  by (simp add: index_def)

lemma vals_zip: "length zs = length (items s) \<Longrightarrow> vals \<lparr>sname = n, items = zip (index s) zs\<rparr> = zs"
  by (simp add: index_def vals_def)

lemma zip_index_const:
  "zip (index s) (map (\<lambda>i. c) [0..<length (items s)]) = map (\<lambda>(t, x). (t, c)) (items s)"
  by (rule nth_equalityI) (auto simp: index_def case_prod_unfold)

text \<open>
  C3. A constant window: the rolling deviation is zero and the entry is the NaN that the
  unguarded division \<open>0 / 0\<close> gives, the same value that marks the first \<open>window - 1\<close>
  rows. A window of the size of \<open>1 / 2 ^ 600\<close>: the squared deviations underflow, the
  rolling deviation is zero although the entry differs from the rolling mean, and the
  z-score is \<open>+\<infinity>\<close>.
\<close>

theorem calculate_zscore_zero_std_unguarded:
  "roll_std std_exact (vals flat3) 3 2 = Fin 0
   \<and> calculate_zscore mean_exact std_exact flat3 3
       = Inr \<lparr>sname = Some ''spread'',
              items = [(0, NaN), (1, NaN), (2, fl_div (Fin 0) (Fin 0))]\<rparr>
   \<and> fl_div (Fin 0) (Fin 0) = NaN
   \<and> roll_std std_underflow (vals tiny3) 3 2 = Fin 0
   \<and> calculate_zscore mean_exact std_underflow tiny3 3
       = Inr \<lparr>sname = Some ''spread'', items = [(0, NaN), (1, NaN), (2, PInf)]\<rparr>"
proof -
  have v5: "vals flat3 = [5, 5, 5]" and vt: "vals tiny3 = [tiny, 2 * tiny, 3 * tiny]"
    by (simp_all add: vals_def flat3_def tiny3_def)
  have n3: "[0..<3] = [0, Suc 0, Suc (Suc 0)]" by (simp add: upt_rec)
  have w5: "window_at [5, 5, 5] 3 (Suc (Suc 0)) = [5, 5, 5]"
    and wt: "window_at [tiny, 2 * tiny, 3 * tiny] 3 (Suc (Suc 0)) = [tiny, 2 * tiny, 3 * tiny]"
    by (simp_all add: window_at_def)
  have m5: "mean [5, 5, 5] = 5" and mt: "mean [tiny, 2 * tiny, 3 * tiny] = 2 * tiny"
    by (simp_all add: mean_def)
  have pos: "0 < tiny" by (simp add: tiny_def)
  have "tiny\<^sup>2 = 1 / 2 ^ 1200"
    by (simp add: tiny_def power_divide)
  moreover have "(1::real) / 2 ^ 1200 < 1 / 2 ^ 1075" by simp
  ultimately have f: "flush (tiny\<^sup>2) = 0" by (simp add: flush_def)
  have f0: "flush 0 = 0" by (simp add: flush_def)
  have s5: "std_exact [5, 5, 5] 3 (Suc (Suc 0)) = Fin 0"
    by (simp add: std_exact_def w5 m5)
  have st: "std_underflow [tiny, 2 * tiny, 3 * tiny] 3 (Suc (Suc 0)) = Fin 0"
    by (simp add: std_underflow_def wt mt f f0)
  have mk5: "mean_exact [5, 5, 5] 3 (Suc (Suc 0)) = Fin 5"
    by (simp add: mean_exact_def w5 m5)
  have mkt: "mean_exact [tiny, 2 * tiny, 3 * tiny] 3 (Suc (Suc 0)) = Fin (2 * tiny)"
    by (simp add: mean_exact_def wt mt)
  have c1: "roll_std std_exact (vals flat3) 3 2 = Fin 0"
    by (simp add: roll_std_def v5 s5 w5 numeral_2_eq_2)
  have c2: "calculate_zscore mean_exact std_exact flat3 3
       = Inr \<lparr>sname = Some ''spread'',
              items = [(0, NaN), (1, NaN), (2, fl_div (Fin 0) (Fin 0))]\<rparr>"
    by (simp add: zscore_cells v5 n3 zcell_def roll_mean_def roll_std_def w5
        s5 mk5 fl_sub_def)
       (simp add: flat3_def index_def window_at_def)
  have c4: "roll_std std_underflow (vals tiny3) 3 2 = Fin 0"
    by (simp add: roll_std_def vt st wt numeral_2_eq_2)
  have c5: "calculate_zscore mean_exact std_underflow tiny3 3
       = Inr \<lparr>sname = Some ''spread'', items = [(0, NaN), (1, NaN), (2, PInf)]\<rparr>"
    using pos
    by (simp add: zscore_cells vt n3 zcell_def roll_mean_def roll_std_def wt
        st mkt fl_sub_def)
       (simp add: tiny3_def index_def window_at_def)
  show ?thesis using c1 c2 c4 c5 by simp
qed

text \<open>
  C3, as the code has it. For a window of at least 2 and whatever the rolling kernels
  compute, calculate\_zscore returns a series on the spread's index whose first
  \<open>window - 1\<close> entries are NaN, pandas' marker of a missing value (not a number, so
  neither zero nor a backfilled value). Every later entry is the quotient of the entry's
  distance from the rolling mean by the rolling deviation, divided without a guard: where
  the rolling deviation is zero it is never a finite number, it is NaN when the entry
  equals the rolling mean and an infinity of the sign of the difference otherwise; where
  the rolling mean is finite and the rolling deviation finite and not zero it is the
  finite z-score.
\<close>

theorem calculate_zscore_entries:
  assumes "2 \<le> window"
  shows "\<exists>z. calculate_zscore kmean kstd s window = Inr z \<and> index z = index s
     \<and> (\<forall>i < length (items s).
          (int i < window - 1 \<longrightarrow> vals z ! i = NaN)
        \<and> (window - 1 \<le> int i \<longrightarrow>
             vals z ! i = fl_div (fl_sub (Fin (vals s ! i)) (kmean (vals s) (nat window) i))
                                 (kstd (vals s) (nat window) i)
           \<and> (kstd (vals s) (nat window) i = Fin 0 \<longrightarrow> (\<forall>v. vals z ! i \<noteq> Fin v))
           \<and> (\<forall>m. kmean (vals s) (nat window) i = Fin m \<and> kstd (vals s) (nat window) i = Fin 0 \<longrightarrow>
                vals z ! i = (if vals s ! i = m then NaN
                              else if m < vals s ! i then PInf else NInf))
           \<and> (\<forall>m sd. kmean (vals s) (nat window) i = Fin m
                     \<and> kstd (vals s) (nat window) i = Fin sd \<and> sd \<noteq> 0 \<longrightarrow>
                vals z ! i = Fin ((vals s ! i - m) / sd))))"
proof -
  define w where "w = nat window"
  define zs where "zs = map (zcell kmean kstd (vals s) w) [0..<length (vals s)]"
  define z where "z = \<lparr>sname = sname s, items = zip (index s) zs\<rparr>"
  have w: "2 \<le> w" "window = int w" using assms by (simp_all add: w_def)
  have len: "length zs = length (items s)" by (simp add: zs_def vals_def)
  have r: "calculate_zscore kmean kstd s window = Inr z"
    using zscore_cells[of window kmean kstd s] assms by (simp add: z_def zs_def w_def)
  have i: "index z = index s" unfolding z_def using len by (rule index_zip)
  have v: "vals z = zs" unfolding z_def using len by (rule vals_zip)
  have "(int i < window - 1 \<longrightarrow> zs ! i = NaN)
        \<and> (window - 1 \<le> int i \<longrightarrow>
             zs ! i = fl_div (fl_sub (Fin (vals s ! i)) (kmean (vals s) w i)) (kstd (vals s) w i)
           \<and> (kstd (vals s) w i = Fin 0 \<longrightarrow> (\<forall>v. zs ! i \<noteq> Fin v))
           \<and> (\<forall>m. kmean (vals s) w i = Fin m \<and> kstd (vals s) w i = Fin 0 \<longrightarrow>
                zs ! i = (if vals s ! i = m then NaN
                          else if m < vals s ! i then PInf else NInf))
           \<and> (\<forall>m sd. kmean (vals s) w i = Fin m \<and> kstd (vals s) w i = Fin sd \<and> sd \<noteq> 0 \<longrightarrow>
                zs ! i = Fin ((vals s ! i - m) / sd)))"
    if "i < length (items s)" for i
  proof -
    have il: "i < length (vals s)" using that by (simp add: vals_def)
    then have zi: "zs ! i = zcell kmean kstd (vals s) w i" by (simp add: zs_def)
    show ?thesis
    proof (cases "Suc i < w")
      case True
      then show ?thesis using zcell_early[OF il True] w zi by simp
    next
      case False
      then have wi: "w \<le> Suc i" by simp
      have q: "zs ! i = fl_div (fl_sub (Fin (vals s ! i)) (kmean (vals s) w i)) (kstd (vals s) w i)"
        using zcell_full[OF il w(1) wi] zi by simp
      have "int i < window - 1 \<longrightarrow> zs ! i = NaN" using wi w by simp
      moreover have "kstd (vals s) w i = Fin 0 \<longrightarrow> (\<forall>v. zs ! i \<noteq> Fin v)"
        using q fl_div_zero_not_finite by simp
      moreover have "\<forall>m. kmean (vals s) w i = Fin m \<and> kstd (vals s) w i = Fin 0 \<longrightarrow>
                zs ! i = (if vals s ! i = m then NaN
                          else if m < vals s ! i then PInf else NInf)"
        using q fl_div_zero_cases by simp
      moreover have "\<forall>m sd. kmean (vals s) w i = Fin m \<and> kstd (vals s) w i = Fin sd \<and> sd \<noteq> 0 \<longrightarrow>
                zs ! i = Fin ((vals s ! i - m) / sd)"
        using q fl_div_finite by simp
      ultimately show ?thesis using q by blast
    qed
  qed
  then show ?thesis using r i v unfolding w_def by blast
qed

theorem calculate_zscore_entries_witness:
  "(2::int) \<le> 3
   \<and> (\<exists>z. calculate_zscore mean_exact std_exact sp5 3 = Inr z \<and> index z = index sp5
          \<and> vals z ! 0 = NaN \<and> vals z ! 1 = NaN \<and> vals z ! 2 = NaN
          \<and> (\<exists>v. vals z ! 3 = Fin v) \<and> vals z ! 4 = Fin 1)"
proof -
  have v5: "vals sp5 = [5, 5, 5, 6, 7]" by (simp add: vals_def sp5_def)
  have m2: "mean_exact (vals sp5) (nat 3) 2 = Fin 5"
    by (simp add: mean_exact_def mean_def window_at_def v5)
  have s2: "std_exact (vals sp5) (nat 3) 2 = Fin 0"
    by (simp add: std_exact_def Let_def mean_def window_at_def v5)
  have m3: "\<exists>m. mean_exact (vals sp5) (nat 3) 3 = Fin m"
    by (simp add: mean_exact_def)
  have s3: "\<exists>sd. std_exact (vals sp5) (nat 3) 3 = Fin sd \<and> sd \<noteq> 0"
    by (simp add: std_exact_def Let_def mean_def window_at_def v5 power2_eq_square)
  have m4: "mean_exact (vals sp5) (nat 3) 4 = Fin 6"
    by (simp add: mean_exact_def mean_def window_at_def v5)
  have s4: "std_exact (vals sp5) (nat 3) 4 = Fin 1"
    by (simp add: std_exact_def Let_def mean_def window_at_def v5)
  have n: "length (items sp5) = 5" by (simp add: sp5_def)
  from calculate_zscore_entries [of 3 mean_exact std_exact sp5] obtain z where
    z: "calculate_zscore mean_exact std_exact sp5 3 = Inr z" "index z = index sp5"
       "\<forall>i < length (items sp5).
          (int i < 3 - 1 \<longrightarrow> vals z ! i = NaN)
        \<and> (3 - 1 \<le> int i \<longrightarrow>
             vals z ! i = fl_div (fl_sub (Fin (vals sp5 ! i)) (mean_exact (vals sp5) (nat 3) i))
                                 (std_exact (vals sp5) (nat 3) i)
           \<and> (std_exact (vals sp5) (nat 3) i = Fin 0 \<longrightarrow> (\<forall>v. vals z ! i \<noteq> Fin v))
           \<and> (\<forall>m. mean_exact (vals sp5) (nat 3) i = Fin m \<and> std_exact (vals sp5) (nat 3) i = Fin 0 \<longrightarrow>
                vals z ! i = (if vals sp5 ! i = m then NaN
                              else if m < vals sp5 ! i then PInf else NInf))
           \<and> (\<forall>m sd. mean_exact (vals sp5) (nat 3) i = Fin m
                     \<and> std_exact (vals sp5) (nat 3) i = Fin sd \<and> sd \<noteq> 0 \<longrightarrow>
                vals z ! i = Fin ((vals sp5 ! i - m) / sd)))"
    by auto
  have r: "2 < length (items sp5)" "3 < length (items sp5)" "4 < length (items sp5)"
    by (simp_all add: n)
  have g: "(3::int) - 1 \<le> int 2" "(3::int) - 1 \<le> int 3" "(3::int) - 1 \<le> int 4"
    by simp_all
  have "vals z ! 0 = NaN" using z(3)[rule_format, of 0] n by simp
  moreover have "vals z ! 1 = NaN" using z(3)[rule_format, of 1] n by simp
  moreover have "vals z ! 2 = NaN"
  proof -
    have "vals z ! 2 = (if vals sp5 ! 2 = 5 then NaN
                        else if 5 < vals sp5 ! 2 then PInf else NInf)"
      using z(3) r(1) g(1) m2 s2 by blast
    then show ?thesis by (simp add: v5)
  qed
  moreover have "\<exists>v. vals z ! 3 = Fin v"
    using z(3) r(2) g(2) m3 s3 by blast
  moreover have "vals z ! 4 = Fin 1"
  proof -
    have "(1::real) \<noteq> 0" by simp
    then have "vals z ! 4 = Fin ((vals sp5 ! 4 - 6) / 1)"
      using z(3) r(3) g(3) m4 s4 by blast
    then show ?thesis by (simp add: v5)
  qed
  ultimately show ?thesis using z(1,2) by auto
qed

text \<open>
  C5. Scenario 4: a window of 2 on a spread of one row raises nothing; the result is the
  one-row series whose entry is NaN.
\<close>

theorem calculate_zscore_window_2_length_1:
  "calculate_zscore mean_exact std_exact sp1 2
     = Inr \<lparr>sname = Some ''spread'', items = [(0, NaN)]\<rparr>
   \<and> calculate_zscore mean_exact std_exact sp1 2 \<noteq> Inl InvalidWindowError"
  by (simp add: calculate_zscore_def rolling_def bind_err_def rolling_mean_def rolling_std_def
      roll_mean_def roll_std_def window_at_def vals_def index_def sp1_def fl_sub_def)

text \<open>
  C5, as the code has it. For a window below 2 or above the length of the spread,
  calculate\_zscore never fails with InvalidWindowError: a negative window is refused by
  pandas' \<^verbatim>\<open>rolling\<close> with ValueError, and every other such window returns the series on
  the spread's index whose entries are all NaN, whatever the rolling kernels compute.
\<close>

theorem calculate_zscore_bad_window:
  assumes "window < 2 \<or> int (length (items s)) < window"
  shows "calculate_zscore kmean kstd s window
         = (if window < 0 then Inl ValueError else Inr (map_series (\<lambda>x. NaN) s))"
proof (cases "window < 0")
  case True
  then show ?thesis by (simp add: calculate_zscore_def rolling_def bind_err_def)
next
  case False
  then have w: "0 \<le> window" by simp
  have "zcell kmean kstd (vals s) (nat window) i = NaN" if "i < length (vals s)" for i
  proof (cases "window < 2")
    case True
    then show ?thesis using zcell_small[OF that, of "nat window"] by simp
  next
    case False
    with assms have "int (length (items s)) < window" by simp
    then have "Suc i < nat window" using that by (simp add: vals_def)
    then show ?thesis using zcell_early[OF that] by simp
  qed
  then have "map (zcell kmean kstd (vals s) (nat window)) [0..<length (vals s)]
             = map (\<lambda>i. NaN) [0..<length (items s)]"
    by (simp add: vals_def)
  then show ?thesis
    using False zscore_cells[OF w, of kmean kstd s] by (simp add: zip_index_const map_series_def)
qed

theorem calculate_zscore_bad_window_witness:
  "int (length (items sp5)) < 7
   \<and> calculate_zscore mean_exact std_exact sp5 7 = Inr \<lparr>sname = Some ''spread'',
        items = [(0, NaN), (1, NaN), (2, NaN), (3, NaN), (4, NaN)]\<rparr>
   \<and> calculate_zscore mean_exact std_exact sp5 (- 1) = Inl ValueError"
proof -
  have a: "int (length (items sp5)) < 7" by (simp add: sp5_def)
  have "calculate_zscore mean_exact std_exact sp5 7 = Inr (map_series (\<lambda>x. NaN) sp5)"
    using calculate_zscore_bad_window [of 7 sp5 mean_exact std_exact] a by simp
  moreover have "calculate_zscore mean_exact std_exact sp5 (- 1) = Inl ValueError"
    using calculate_zscore_bad_window [of "- 1" sp5 mean_exact std_exact] by simp
  ultimately show ?thesis using a by (simp add: map_series_def sp5_def)
qed

section \<open>Properties of check\_cointegration\<close>

lemma dot_Nil [simp]: "dot [] ys = 0" "dot xs [] = 0"
  by (simp_all add: dot_def)

lemma dot_Cons [simp]: "dot (x # xs) (y # ys) = x * y + dot xs ys"
  by (simp add: dot_def)









lemma constant_safe_is_const:
  assumes "constant_series xs" "xs \<noteq> []" "hd xs \<noteq> 0"
  shows "safe_is_const xs"
proof -
  have h: "hd xs \<in> set xs" using assms(2) by simp
  have "Max (set xs) \<in> set xs" "Min (set xs) \<in> set xs"
    using assms(2) by simp_all
  then have "Max (set xs) = Min (set xs)" using assms(1) by (simp add: constant_series_def)
  then show ?thesis using assms(2,3) h by (auto simp: safe_is_const_def ptp_def)
qed

































text \<open>
  C4. On the constant \<open>series1 = [3, 3, 3]\<close> the call fails, but with IndexError:
  \<^verbatim>\<open>add_constant\<close> adds no column to a non-zero constant one, the fit has one parameter
  and \<^verbatim>\<open>model.params.iloc[1]\<close> is out of range. adfuller is not reached: the error is
  not the ValueError of an adfuller that refuses every sample.
\<close>

theorem check_cointegration_constant_is_IndexError:
  "check_cointegration (\<lambda>xs. None) constA koB = Inl IndexError
   \<and> check_cointegration (\<lambda>xs. None) constA koB \<noteq> Inl DegenerateSeriesError"
  by (simp add: check_cointegration_def fit_spread_def add_constant_def safe_is_const_def
      ptp_def OLS_fit_def bind_err_def iloc_def vals_def index_def constA_def koB_def)

text \<open>
  C4, as the code has it. For every non-empty \<open>series1\<close> whose values all equal one
  non-zero number, and every \<open>series2\<close> on the same index, check\_cointegration fails with
  IndexError, whatever adfuller is: the failure comes before the spread is computed.
\<close>

theorem check_cointegration_constant_seriesA:
  assumes "index series2 = index series1" and "vals series1 \<noteq> []"
    and "\<forall>x\<in>set (vals series1). x = k" and "k \<noteq> 0"
  shows "check_cointegration adfuller series1 series2 = Inl IndexError"
proof -
  have "constant_series (vals series1)"
    unfolding constant_series_def using assms(3) by metis
  moreover have "hd (vals series1) \<noteq> 0" using assms(2,3,4) by (metis hd_in_set)
  ultimately have "safe_is_const (vals series1)"
    using assms(2) by (simp add: constant_safe_is_const)
  moreover have "index series1 \<noteq> []" using assms(2) by (simp add: vals_def index_def)
  ultimately show ?thesis
    using assms(1)
    by (simp add: check_cointegration_def fit_spread_def add_constant_def OLS_fit_def
        bind_err_def iloc_def)
qed

theorem check_cointegration_constant_seriesA_witness:
  "index koB = index constA \<and> vals constA \<noteq> [] \<and> (3::real) \<noteq> 0
   \<and> check_cointegration (\<lambda>xs. Some 0) constA koB = Inl IndexError"
proof -
  have a: "index koB = index constA" "vals constA \<noteq> []" "\<forall>x\<in>set (vals constA). x = 3"
    by (simp_all add: index_def vals_def koB_def constA_def)
  have "check_cointegration (\<lambda>xs. Some 0) constA koB = Inl IndexError"
    using check_cointegration_constant_seriesA [OF a, of "\<lambda>xs. Some 0"] by simp
  then show ?thesis using a by simp
qed


end
